theory Spec2Isabelle
  imports Main "HOL-Library.Sublist"
begin

section \<open>Values returned by the model capability\<close>

text \<open>
  A Python \<open>float\<close> is named by its \<open>repr\<close>, the shortest decimal text that reads back
  as the same double; \<open>str\<close> of a float is that text.
\<close>

datatype pyfloat = PyFloat string

fun str_float :: "pyfloat \<Rightarrow> string" where
  "str_float (PyFloat r) = r"

text \<open>
  The classifier's \<open>final_output\<close> is whatever the agents library hands back: an
  instance of the pydantic class \<open>MedicineOutput\<close>, a \<open>dict\<close>, or any other Python
  value. Python values are the JSON shapes; a \<open>dict\<close> is its list of items with
  string keys.
\<close>

datatype pyval =
    PyNone
  | PyBool bool
  | PyInt int
  | PyFlt pyfloat
  | PyStr string
  | PyList "pyval list"
  | PyDict "(string \<times> pyval) list"

text \<open>
  \<open>bool(v)\<close>: Python's truth value of \<open>v\<close>. The floats that are false are the two
  zeros.
\<close>

fun py_bool :: "pyval \<Rightarrow> bool" where
  "py_bool PyNone = False"
| "py_bool (PyBool b) = b"
| "py_bool (PyInt n) = (n \<noteq> 0)"
| "py_bool (PyFlt f) = (str_float f \<notin> set [''0.0'', ''-0.0''])"
| "py_bool (PyStr s) = (s \<noteq> [])"
| "py_bool (PyList xs) = (xs \<noteq> [])"
| "py_bool (PyDict d) = (d \<noteq> [])"

text \<open>\<open>d.get(k, default)\<close> on a dict given by its items.\<close>

definition dict_get :: "(string \<times> pyval) list \<Rightarrow> string \<Rightarrow> pyval \<Rightarrow> pyval" where
  "dict_get d k dflt = (case map_of d k of None \<Rightarrow> dflt | Some v \<Rightarrow> v)"

text \<open>\<open>class MedicineOutput(BaseModel)\<close>: both fields are validated by pydantic.\<close>

record MedicineOutput =
  response :: string
  isMedicineQuery :: bool

datatype final_output =
    Structured MedicineOutput
  | Raw pyval

record GuardrailFunctionOutput =
  output_info :: final_output
  tripwire_triggered :: bool

text \<open>
  Lines 115 to 120 of \<open>medicine_guardrail\<close>: the value of \<open>is_medicine\<close> after the
  \<open>isinstance\<close> chain.
\<close>

fun is_medicine_of :: "final_output \<Rightarrow> bool" where
  "is_medicine_of (Structured m) = isMedicineQuery m"
| "is_medicine_of (Raw (PyDict d)) = py_bool (dict_get d ''isMedicineQuery'' (PyBool False))"
| "is_medicine_of (Raw v) = False"

text \<open>Lines 122 to 125: the value \<open>medicine_guardrail\<close> returns for a classifier output.\<close>

definition guardrail_output :: "final_output \<Rightarrow> GuardrailFunctionOutput" where
  "guardrail_output output =
     \<lparr>output_info = output, tripwire_triggered = (\<not> is_medicine_of output)\<rparr>"

section \<open>Python strings\<close>

text \<open>
  A Python \<open>str\<close> is a \<open>string\<close> whose characters are the code points below 256;
  on these \<open>str.strip\<close> and \<open>str.lower\<close> are as follows. Text written to the
  terminal is held as it is sent: the one character of the program's text above that
  range, U+274C, is its three UTF-8 bytes.
\<close>

definition py_isspace :: "char \<Rightarrow> bool" where
  "py_isspace c = (c \<in> set [CHR 0x09, CHR 0x0A, CHR 0x0B, CHR 0x0C, CHR 0x0D,
     CHR 0x1C, CHR 0x1D, CHR 0x1E, CHR 0x1F, CHR 0x20, CHR 0x85, CHR 0xA0])"

definition py_strip :: "string \<Rightarrow> string" where
  "py_strip s = rev (dropWhile py_isspace (rev (dropWhile py_isspace s)))"

definition upper_chars :: string where
  "upper_chars = ''ABCDEFGHIJKLMNOPQRSTUVWXYZ'' @
     [CHR 0xC0, CHR 0xC1, CHR 0xC2, CHR 0xC3, CHR 0xC4, CHR 0xC5, CHR 0xC6, CHR 0xC7,
      CHR 0xC8, CHR 0xC9, CHR 0xCA, CHR 0xCB, CHR 0xCC, CHR 0xCD, CHR 0xCE, CHR 0xCF,
      CHR 0xD0, CHR 0xD1, CHR 0xD2, CHR 0xD3, CHR 0xD4, CHR 0xD5, CHR 0xD6,
      CHR 0xD8, CHR 0xD9, CHR 0xDA, CHR 0xDB, CHR 0xDC, CHR 0xDD, CHR 0xDE]"

definition lower_chars :: string where
  "lower_chars = ''abcdefghijklmnopqrstuvwxyz'' @
     [CHR 0xE0, CHR 0xE1, CHR 0xE2, CHR 0xE3, CHR 0xE4, CHR 0xE5, CHR 0xE6, CHR 0xE7,
      CHR 0xE8, CHR 0xE9, CHR 0xEA, CHR 0xEB, CHR 0xEC, CHR 0xED, CHR 0xEE, CHR 0xEF,
      CHR 0xF0, CHR 0xF1, CHR 0xF2, CHR 0xF3, CHR 0xF4, CHR 0xF5, CHR 0xF6,
      CHR 0xF8, CHR 0xF9, CHR 0xFA, CHR 0xFB, CHR 0xFC, CHR 0xFD, CHR 0xFE]"

definition py_lower_char :: "char \<Rightarrow> char" where
  "py_lower_char c =
     (case map_of (zip upper_chars lower_chars) c of None \<Rightarrow> c | Some l \<Rightarrow> l)"

definition py_lower :: "string \<Rightarrow> string" where
  "py_lower s = map py_lower_char s"

text \<open>\<open>str(n)\<close> for an \<open>int\<close>, and \<open>str(b)\<close> for a \<open>bool\<close>.\<close>

function str_nat :: "nat \<Rightarrow> string" where
  "str_nat n =
     (if n < 10 then [''0123456789'' ! n]
      else str_nat (n div 10) @ [''0123456789'' ! (n mod 10)])"
  by pat_completeness auto
termination
  by (relation "measure id") auto

definition str_int :: "int \<Rightarrow> string" where
  "str_int i = (if i < 0 then ''-'' @ str_nat (nat (- i)) else str_nat (nat i))"

definition str_bool :: "bool \<Rightarrow> string" where
  "str_bool b = (if b then ''True'' else ''False'')"

section \<open>Local context\<close>

record BankAccount =
  account_number :: string
  customer_name :: string
  account_balance :: pyfloat
  account_type :: string

record StudentProfile =
  student_id :: string
  student_name :: string
  current_semester :: int
  total_courses :: int

record LibraryBook =
  book_id :: string
  book_title :: string
  author_name :: string
  is_available :: bool

text \<open>The f-string of lines 130 to 148, as a function of the three objects it reads.\<close>

definition render_context :: "BankAccount \<Rightarrow> StudentProfile \<Rightarrow> LibraryBook \<Rightarrow> string" where
  "render_context b s l =
     ''\<newline>Bank Account:\<newline>  Account Number: '' @ account_number b @
     ''\<newline>  Customer Name: '' @ customer_name b @
     ''\<newline>  Account Balance: '' @ str_float (account_balance b) @
     ''\<newline>  Account Type: '' @ account_type b @
     ''\<newline>\<newline>Student Profile:\<newline>  ID: '' @ student_id s @
     ''\<newline>  Name: '' @ student_name s @
     ''\<newline>  Semester: '' @ str_int (current_semester s) @
     ''\<newline>  Total Courses: '' @ str_int (total_courses s) @
     ''\<newline>\<newline>Library Book:\<newline>  ID: '' @ book_id l @
     ''\<newline>  Title: '' @ book_title l @
     ''\<newline>  Author: '' @ author_name l @
     ''\<newline>  Available: '' @ str_bool (is_available l) @ ''\<newline>''"

section \<open>Agents\<close>

datatype guardrail = MedicineGuardrail

datatype output_type = PlainText | MedicineOutputType

datatype Agent = Agent (name: string) (instructions: string) (handoffs: "Agent list")
  (input_guardrails: "guardrail list") (output_type: output_type)

definition guardrail_instructions :: string where
  \<open>guardrail_instructions =
     ''\<newline>    You are a guardrail agent. Your job is to check if the user question is about medicine.'' @
     ''\<newline>    Return:\<newline>    {\<newline>        "response": "<short message>",'' @
     ''\<newline>        "isMedicineQuery": true/false\<newline>    }\<newline>    ''\<close>

definition medicine_instructions :: "string \<Rightarrow> string" where
  "medicine_instructions ctx =
     ''\<newline>    You are a medicine expert. Answer user questions about medicine clearly and concisely.'' @
     ''\<newline>    Also, you have access to the following local context data:\<newline>    '' @ ctx @
     ''\<newline>    If the question is not about medicine, do not answer.\<newline>    ''"

definition triage_instructions :: "string \<Rightarrow> string" where
  "triage_instructions ctx =
     ''\<newline>    You are a triage agent. Use the given local context:\<newline>    '' @ ctx @
     ''\<newline>    Delegate the user's query to the correct agent. Use medicine_agent for medicine-related queries.\<newline>    ''"

section \<open>Module state\<close>

text \<open>The module's global names once the file has been loaded.\<close>

record globals =
  OPENAI_API_KEY :: string
  bank_account :: BankAccount
  student :: StudentProfile
  library_book :: LibraryBook
  guardrail_agent :: Agent
  local_context_text :: string
  medicine_agent :: Agent
  triage_agent :: Agent

datatype exn =
    ValueError string
  | InputGuardrailTripwireTriggered
  | EOFError
  | ExternalError string

text \<open>
  Lines 26 to 169, run once when the module is loaded with the key at hand. The
  client, model and run configuration built from the key are objects of the agents
  library and carry nothing the program reads back.
\<close>

definition build_globals :: "string \<Rightarrow> globals" where
  "build_globals key =
     (let b = \<lparr>account_number = ''ACC-789456'', customer_name = ''Fatima Khan'',
               account_balance = PyFloat ''75500.5'', account_type = ''savings''\<rparr>;
          s = \<lparr>student_id = ''STU-456'', student_name = ''Hassan Ahmed'',
               current_semester = 4, total_courses = 5\<rparr>;
          l = \<lparr>book_id = ''BOOK-123'', book_title = ''Python Programming'',
               author_name = ''John Smith'', is_available = True\<rparr>;
          ga = Agent ''Guardrail Agent'' guardrail_instructions [] [] MedicineOutputType;
          ctx = render_context b s l;
          ma = Agent ''Medicine Agent'' (medicine_instructions ctx) [] [] PlainText;
          ta = Agent ''Triage Agent'' (triage_instructions ctx) [ma] [MedicineGuardrail]
                 PlainText
      in \<lparr>OPENAI_API_KEY = key, bank_account = b, student = s, library_book = l,
           guardrail_agent = ga, local_context_text = ctx, medicine_agent = ma,
           triage_agent = ta\<rparr>)"

text \<open>
  Lines 20 to 24, then the rest of the module. The argument is what
  \<open>os.getenv("OPENAI_API_KEY")\<close> returns after \<open>load_dotenv()\<close>; \<open>not OPENAI_API_KEY\<close>
  holds for \<open>None\<close> and for the empty string.
\<close>

definition load_module :: "string option \<Rightarrow> exn + globals" where
  "load_module getenv =
     (case getenv of
        None \<Rightarrow> Inl (ValueError ''OPENAI_API_KEY not set in .env file.'')
      | Some key \<Rightarrow>
          if key = [] then Inl (ValueError ''OPENAI_API_KEY not set in .env file.'')
          else Inr (build_globals key))"

section \<open>Effects\<close>

text \<open>
  What the process does is recorded in order: a prompt written by \<open>input\<close>, a \<open>print\<close>
  (its argument, without the newline \<open>print\<close> adds), a call of \<open>Runner.run\<close> with the
  agent's name and the input, an invocation of the model capability under an agent's
  instructions, and the opening and closing of a \<open>trace\<close> scope.
\<close>

datatype event =
    Prompt string
  | Print string
  | Called string string
  | Invoked string string
  | TraceOpen string
  | TraceClose

text \<open>
  The state threaded through the run: the module globals, the state of the outside
  world the model capability lives in, and the events so far.
\<close>

record 'w state =
  globals :: globals
  world :: 'w
  events :: "event list"

definition emit :: "event \<Rightarrow> 'w state \<Rightarrow> 'w state" where
  "emit e s = s\<lparr>events := events s @ [e]\<rparr>"

text \<open>
  \<open>Runner.run(agent, input, run_config=config)\<close> belongs to the agents library. The
  functions of this file take it as a parameter \<open>run\<close>; \<open>call\<close> is the call itself,
  recorded before the library takes over.
\<close>

definition call ::
  "(Agent \<Rightarrow> string \<Rightarrow> 'w state \<Rightarrow> (exn + 'r) \<times> 'w state) \<Rightarrow>
   Agent \<Rightarrow> string \<Rightarrow> 'w state \<Rightarrow> (exn + 'r) \<times> 'w state" where
  "call run agent input s = run agent input (emit (Called (name agent) input) s)"

section \<open>The guardrail function\<close>

text \<open>
  \<open>medicine_guardrail(ctx, agent, input_text)\<close>; \<open>ctx\<close> and \<open>agent\<close> are not read. An
  exception of \<open>Runner.run\<close> leaves the function as it is.
\<close>

definition medicine_guardrail ::
  "(Agent \<Rightarrow> string \<Rightarrow> 'w state \<Rightarrow> (exn + final_output) \<times> 'w state) \<Rightarrow>
   string \<Rightarrow> 'w state \<Rightarrow> (exn + GuardrailFunctionOutput) \<times> 'w state" where
  "medicine_guardrail run input_text s =
     (case call run (guardrail_agent (globals s)) input_text s of
        (Inl e, s') \<Rightarrow> (Inl e, s')
      | (Inr output, s') \<Rightarrow> (Inr (guardrail_output output), s'))"

section \<open>The runner and the interactive loop\<close>

definition blocked_notice :: string where
  "blocked_notice = ''\<newline>[Blocked] '' @ [CHR 0xE2, CHR 0x9D, CHR 0x8C] @
     '' This question is not about medicine.\<newline>''"

text \<open>
  \<open>run_query\<close>: the three prints follow a \<open>Runner.run\<close> that returned; the only
  \<open>except\<close> clause is the one for \<open>InputGuardrailTripwireTriggered\<close>; any other
  exception leaves \<open>run_query\<close>, closing the trace scope on its way. The result is the
  exception that escapes, if any.
\<close>

definition run_query ::
  "(Agent \<Rightarrow> string \<Rightarrow> 'w state \<Rightarrow> (exn + string) \<times> 'w state) \<Rightarrow>
   string \<Rightarrow> 'w state \<Rightarrow> exn option \<times> 'w state" where
  "run_query run user_query s =
     (let s1 = emit (TraceOpen ''Guardrail Execution'') s in
      case call run (triage_agent (globals s1)) user_query s1 of
        (Inr final_output, s2) \<Rightarrow>
          (None, emit TraceClose
                   (emit (Print ''--------------------\<newline>'')
                     (emit (Print final_output)
                       (emit (Print ''\<newline>--- Agent Answer ---'') s2))))
      | (Inl InputGuardrailTripwireTriggered, s2) \<Rightarrow>
          (None, emit TraceClose (emit (Print blocked_notice) s2))
      | (Inl e, s2) \<Rightarrow> (Some e, emit TraceClose s2))"

text \<open>
  The \<open>while True\<close> loop of \<open>main\<close> over the lines \<open>input\<close> will return. When no line
  is left \<open>input\<close> raises \<open>EOFError\<close>, which nothing catches; an exception that escapes
  \<open>run_query\<close> escapes \<open>loop.run_until_complete\<close> and the loop as well.
\<close>

fun main_loop ::
  "(Agent \<Rightarrow> string \<Rightarrow> 'w state \<Rightarrow> (exn + string) \<times> 'w state) \<Rightarrow>
   string list \<Rightarrow> 'w state \<Rightarrow> exn option \<times> 'w state" where
  "main_loop run [] s = (Some EOFError, emit (Prompt ''Your Question: '') s)"
| "main_loop run (line # rest) s =
     (let s1 = emit (Prompt ''Your Question: '') s;
          question = py_strip line
      in if py_lower question \<in> set [''exit'', ''quit'']
         then (None, emit (Print ''Goodbye!'') s1)
         else if question \<noteq> []
         then (case run_query run question s1 of
                 (Some e, s2) \<Rightarrow> (Some e, s2)
               | (None, s2) \<Rightarrow> main_loop run rest s2)
         else main_loop run rest s1)"

definition main ::
  "(Agent \<Rightarrow> string \<Rightarrow> 'w state \<Rightarrow> (exn + string) \<times> 'w state) \<Rightarrow>
   string list \<Rightarrow> 'w state \<Rightarrow> exn option \<times> 'w state" where
  "main run lines s =
     main_loop run lines
       (emit (Print ''Type 'exit' to quit.\<newline>'')
         (emit (Print ''Medicine Query Bot (Guardrails + Local Context Enabled)'') s))"

text \<open>
  The process: load the module, then \<open>main()\<close>. The result is the exception the process
  dies of, if any, and everything it did.
\<close>

definition program ::
  "(Agent \<Rightarrow> string \<Rightarrow> 'w state \<Rightarrow> (exn + string) \<times> 'w state) \<Rightarrow>
   string option \<Rightarrow> string list \<Rightarrow> 'w \<Rightarrow> exn option \<times> event list" where
  "program run getenv lines w =
     (case load_module getenv of
        Inl e \<Rightarrow> (Some e, [])
      | Inr g \<Rightarrow>
          (case main run lines \<lparr>globals = g, world = w, events = []\<rparr> of
             (r, s) \<Rightarrow> (r, events s)))"

section \<open>The pipeline behind \<open>Runner.run\<close>\<close>

text \<open>
  Modelled from the spec: the model capability, an external collaborator that is not
  part of the sources (spec 6). Given instructions and an input text it answers or
  fails with an opaque error, and may change the world it lives in. The classifier
  answers with a final output of any shape, the router with a text of its own or the
  name of the agent it hands the query to, the specialist with a text.
\<close>

datatype route = Direct string | Delegate string

record 'w capability =
  classifier_call :: "string \<Rightarrow> string \<Rightarrow> 'w \<Rightarrow> (string + final_output) \<times> 'w"
  router_call :: "string \<Rightarrow> string \<Rightarrow> 'w \<Rightarrow> (string + route) \<times> 'w"
  specialist_call :: "string \<Rightarrow> string \<Rightarrow> 'w \<Rightarrow> (string + string) \<times> 'w"

text \<open>
  Modelled from the spec: one invocation of the capability by the agents library, which
  is not part of the sources. It leaves its event and the new world, and a failure
  becomes the exception that propagates (spec 4.2 and 7).
\<close>

definition invoke ::
  "(string \<Rightarrow> string \<Rightarrow> 'w \<Rightarrow> (string + 'r) \<times> 'w) \<Rightarrow>
   Agent \<Rightarrow> string \<Rightarrow> 'w state \<Rightarrow> (exn + 'r) \<times> 'w state" where
  "invoke f agent input s =
     (case f (instructions agent) input (world s) of
        (r, w') \<Rightarrow>
          let s' = emit (Invoked (name agent) input) (s\<lparr>world := w'\<rparr>)
          in (case r of Inl err \<Rightarrow> (Inl (ExternalError err), s') | Inr v \<Rightarrow> (Inr v, s')))"

text \<open>
  Modelled from the spec: \<open>Runner.run\<close> of the agents library, which is not part of the
  sources. The classifier's run invokes the model capability once and returns its
  final output, errors propagating (spec 4.2).
\<close>

definition run_classifier ::
  "'w capability \<Rightarrow> Agent \<Rightarrow> string \<Rightarrow> 'w state \<Rightarrow> (exn + final_output) \<times> 'w state" where
  "run_classifier mc agent input s = invoke (classifier_call mc) agent input s"

text \<open>
  Modelled from the spec: the input guardrails of an agent, which the agents library
  runs, not the sources. Each is checked in turn; a verdict with the tripwire set is
  signalled as the terminating control event instead of a value (spec 4.3).
\<close>

fun run_input_guardrails ::
  "'w capability \<Rightarrow> guardrail list \<Rightarrow> string \<Rightarrow> 'w state \<Rightarrow> (exn + unit) \<times> 'w state" where
  "run_input_guardrails mc [] input s = (Inr (), s)"
| "run_input_guardrails mc (MedicineGuardrail # gs) input s =
     (case medicine_guardrail (run_classifier mc) input s of
        (Inl e, s1) \<Rightarrow> (Inl e, s1)
      | (Inr verdict, s1) \<Rightarrow>
          if tripwire_triggered verdict then (Inl InputGuardrailTripwireTriggered, s1)
          else run_input_guardrails mc gs input s1)"

text \<open>
  Modelled from the spec: \<open>Runner.run\<close> on an agent with input guardrails and handoffs,
  which the agents library implements, not the sources. The gate runs before any
  domain work; if it allows, the router is invoked and either answers or delegates,
  and the query goes verbatim to the delegation target named among the agent's
  handoffs (spec 4.3, 4.4, 4.6 and 5). A target that is not among them is an error of
  the invocation.
\<close>

definition Runner_run ::
  "'w capability \<Rightarrow> Agent \<Rightarrow> string \<Rightarrow> 'w state \<Rightarrow> (exn + string) \<times> 'w state" where
  "Runner_run mc agent input s =
     (case run_input_guardrails mc (input_guardrails agent) input s of
        (Inl e, s1) \<Rightarrow> (Inl e, s1)
      | (Inr u, s1) \<Rightarrow>
          (case invoke (router_call mc) agent input s1 of
             (Inl e, s2) \<Rightarrow> (Inl e, s2)
           | (Inr (Direct text), s2) \<Rightarrow> (Inr text, s2)
           | (Inr (Delegate target), s2) \<Rightarrow>
               (case find (\<lambda>a. name a = target) (handoffs agent) of
                  None \<Rightarrow> (Inl (ExternalError ''unknown handoff''), s2)
                | Some a \<Rightarrow> invoke (specialist_call mc) a input s2)))"

section \<open>The specification's vocabulary\<close>

text \<open>
  The normalisation in the specification's words: the structured type is used directly;
  from a mapping the boolean field is extracted, \<open>false\<close> if it is absent or of the
  wrong type; any other shape is \<open>false\<close>.
\<close>

fun spec_isRelevant :: "final_output \<Rightarrow> bool" where
  "spec_isRelevant (Structured m) = isMedicineQuery m"
| "spec_isRelevant (Raw (PyDict d)) =
     (case map_of d ''isMedicineQuery'' of Some (PyBool b) \<Rightarrow> b | _ \<Rightarrow> False)"
| "spec_isRelevant (Raw v) = False"

text \<open>
  A classification result is well-formed when its relevance field is there and is a
  boolean: the structured type, or a mapping with a boolean \<open>isMedicineQuery\<close>.
\<close>

fun well_formed :: "final_output \<Rightarrow> bool" where
  "well_formed (Structured m) = True"
| "well_formed (Raw (PyDict d)) =
     (case map_of d ''isMedicineQuery'' of Some (PyBool b) \<Rightarrow> True | _ \<Rightarrow> False)"
| "well_formed (Raw v) = False"

text \<open>
  A text is a token "in any letter case" when it has the token's letters in order, each
  either as it stands in the token or as its upper-case letter.
\<close>

definition in_any_case :: "string \<Rightarrow> string \<Rightarrow> bool" where
  "in_any_case token text =
     list_all2 (\<lambda>a b. b = a \<or> (b, a) \<in> set (zip upper_chars lower_chars)) token text"

text \<open>The verdict's \<open>allowed\<close> is the tripwire not being set.\<close>

definition allowed :: "GuardrailFunctionOutput \<Rightarrow> bool" where
  "allowed verdict = (\<not> tripwire_triggered verdict)"

section \<open>The loaded module\<close>

lemma build_globals_agents:
  "guardrail_agent (build_globals k) =
     Agent ''Guardrail Agent'' guardrail_instructions [] [] MedicineOutputType"
  "medicine_agent (build_globals k) =
     Agent ''Medicine Agent'' (medicine_instructions (local_context_text (build_globals k)))
       [] [] PlainText"
  "triage_agent (build_globals k) =
     Agent ''Triage Agent'' (triage_instructions (local_context_text (build_globals k)))
       [medicine_agent (build_globals k)] [MedicineGuardrail] PlainText"
  by (simp_all add: build_globals_def Let_def)

lemma build_globals_records:
  "bank_account (build_globals k) =
     \<lparr>account_number = ''ACC-789456'', customer_name = ''Fatima Khan'',
      account_balance = PyFloat ''75500.5'', account_type = ''savings''\<rparr>"
  "student (build_globals k) =
     \<lparr>student_id = ''STU-456'', student_name = ''Hassan Ahmed'',
      current_semester = 4, total_courses = 5\<rparr>"
  "library_book (build_globals k) =
     \<lparr>book_id = ''BOOK-123'', book_title = ''Python Programming'',
      author_name = ''John Smith'', is_available = True\<rparr>"
  "local_context_text (build_globals k) =
     render_context (bank_account (build_globals k)) (student (build_globals k))
       (library_book (build_globals k))"
  "OPENAI_API_KEY (build_globals k) = k"
  by (simp_all add: build_globals_def Let_def)

section \<open>Stripping and lower-casing\<close>

lemma hd_dropWhile_not: "dropWhile P xs \<noteq> [] \<Longrightarrow> \<not> P (hd (dropWhile P xs))"
  by (simp add: hd_dropWhile)

lemma py_strip_blank: "py_strip l = [] \<longleftrightarrow> (\<forall>c\<in>set l. py_isspace c)"
proof -
  let ?t = "dropWhile py_isspace l"
  have "py_strip l = [] \<longleftrightarrow> (\<forall>c\<in>set ?t. py_isspace c)"
    by (simp add: py_strip_def dropWhile_eq_Nil_conv)
  also have "\<dots> \<longleftrightarrow> ?t = []"
  proof
    assume a: "\<forall>c\<in>set ?t. py_isspace c"
    show "?t = []"
    proof (rule ccontr)
      assume n: "?t \<noteq> []"
      then have "\<not> py_isspace (hd ?t)" by (rule hd_dropWhile_not)
      moreover have "hd ?t \<in> set ?t" using n by simp
      ultimately show False using a by blast
    qed
  qed (simp only: set_empty2 list.set ball_empty)
  also have "\<dots> \<longleftrightarrow> (\<forall>c\<in>set l. py_isspace c)"
    by (simp add: dropWhile_eq_Nil_conv)
  finally show ?thesis .
qed

lemma py_strip_ends:
  assumes "py_strip l \<noteq> []"
  shows "\<not> py_isspace (hd (py_strip l))" and "\<not> py_isspace (last (py_strip l))"
proof -
  let ?t = "dropWhile py_isspace l"
  let ?u = "dropWhile py_isspace (rev ?t)"
  have u: "?u \<noteq> []" using assms by (simp add: py_strip_def)
  have t: "?t \<noteq> []"
  proof
    assume "?t = []"
    then have "?u = []" by (simp only: rev.simps dropWhile.simps)
    with u show False by contradiction
  qed
  have "last (py_strip l) = hd ?u" using u by (simp add: py_strip_def last_rev)
  then show "\<not> py_isspace (last (py_strip l))" using hd_dropWhile_not [OF u] by simp
  have "hd (py_strip l) = last ?u" using u by (simp add: py_strip_def hd_rev)
  also have "rev ?t = takeWhile py_isspace (rev ?t) @ ?u" by simp
  then have "last (rev ?t) = last ?u" using u by (metis last_appendR)
  then have "last ?u = hd ?t" using t by (simp add: last_rev)
  finally show "\<not> py_isspace (hd (py_strip l))" using hd_dropWhile_not [OF t] by simp
qed

lemma py_strip_fixed:
  assumes "l = [] \<or> (\<not> py_isspace (hd l) \<and> \<not> py_isspace (last l))"
  shows "py_strip l = l"
proof (cases "l = []")
  case True then show ?thesis by (simp add: py_strip_def)
next
  case False
  with assms have h: "\<not> py_isspace (hd l)" and la: "\<not> py_isspace (last l)" by auto
  have 1: "dropWhile py_isspace l = l" using False h by (cases l) auto
  have 2: "dropWhile py_isspace (rev l) = rev l"
    using False la by (cases l rule: rev_cases) simp_all
  show ?thesis by (simp add: py_strip_def 1 2)
qed

lemma py_strip_idem: "py_strip (py_strip l) = py_strip l"
  by (rule py_strip_fixed) (use py_strip_ends in blast)

lemma py_strip_decomp:
  "\<exists>pre post. l = pre @ py_strip l @ post \<and> (\<forall>c\<in>set pre. py_isspace c) \<and> (\<forall>c\<in>set post. py_isspace c)"
proof -
  let ?t = "dropWhile py_isspace l"
  have a: "l = takeWhile py_isspace l @ ?t" by simp
  have "?t = rev (takeWhile py_isspace (rev ?t) @ dropWhile py_isspace (rev ?t))"
    by (simp only: takeWhile_dropWhile_id rev_rev_ident)
  then have b: "?t = py_strip l @ rev (takeWhile py_isspace (rev ?t))"
    by (simp only: rev_append py_strip_def)
  have "l = takeWhile py_isspace l @ py_strip l @ rev (takeWhile py_isspace (rev ?t))"
    using a b by metis
  moreover have "\<forall>c\<in>set (takeWhile py_isspace l). py_isspace c"
    by (auto dest: set_takeWhileD)
  moreover have "\<forall>c\<in>set (rev (takeWhile py_isspace (rev ?t))). py_isspace c"
    by (auto dest: set_takeWhileD)
  ultimately show ?thesis by blast
qed

lemma py_lower_char_exit:
  "py_lower_char c = CHR ''e'' \<longleftrightarrow> c = CHR ''e'' \<or> c = CHR ''E''"
  "py_lower_char c = CHR ''x'' \<longleftrightarrow> c = CHR ''x'' \<or> c = CHR ''X''"
  "py_lower_char c = CHR ''i'' \<longleftrightarrow> c = CHR ''i'' \<or> c = CHR ''I''"
  "py_lower_char c = CHR ''t'' \<longleftrightarrow> c = CHR ''t'' \<or> c = CHR ''T''"
  "py_lower_char c = CHR ''q'' \<longleftrightarrow> c = CHR ''q'' \<or> c = CHR ''Q''"
  "py_lower_char c = CHR ''u'' \<longleftrightarrow> c = CHR ''u'' \<or> c = CHR ''U''"
  by (auto simp: py_lower_char_def upper_chars_def lower_chars_def)

lemma py_lower_tokens:
  "py_lower q = ''exit'' \<longleftrightarrow> in_any_case ''exit'' q"
  "py_lower q = ''quit'' \<longleftrightarrow> in_any_case ''quit'' q"
  by (auto simp: py_lower_def in_any_case_def list_all2_Cons1 py_lower_char_exit
      upper_chars_def lower_chars_def)

lemma exit_test:
  "py_lower q \<in> set [''exit'', ''quit''] \<longleftrightarrow> in_any_case ''exit'' q \<or> in_any_case ''quit'' q"
  using py_lower_tokens [of q] by simp

lemma in_any_case_ends:
  assumes "in_any_case ''exit'' t \<or> in_any_case ''quit'' t"
  shows "t \<noteq> [] \<and> \<not> py_isspace (hd t) \<and> \<not> py_isspace (last t)"
proof -
  from assms have low: "py_lower t = ''exit'' \<or> py_lower t = ''quit''"
    using py_lower_tokens [of t] by simp
  then have ne: "t \<noteq> []" by (auto simp: py_lower_def)
  have "py_lower_char (hd t) = hd (py_lower t)" "py_lower_char (last t) = last (py_lower t)"
    using ne by (simp_all add: py_lower_def hd_map last_map)
  with low have "(py_lower_char (hd t) = CHR ''e'' \<or> py_lower_char (hd t) = CHR ''q'') \<and>
    py_lower_char (last t) = CHR ''t''"
    by auto
  then have "hd t \<in> set ''eEqQ'' \<and> last t \<in> set ''tT''"
    by (auto simp: py_lower_char_exit)
  then show ?thesis
    using ne by (auto simp: py_isspace_def)
qed

lemma py_strip_pad:
  assumes pre: "\<forall>c\<in>set pre. py_isspace c" and post: "\<forall>c\<in>set post. py_isspace c"
    and t: "t \<noteq> []" "\<not> py_isspace (hd t)" "\<not> py_isspace (last t)"
  shows "py_strip (pre @ t @ post) = t"
proof -
  have 1: "dropWhile py_isspace (pre @ t @ post) = t @ post"
    using pre t by (cases t) (simp_all add: dropWhile_append)
  have "\<forall>c\<in>set (rev post). py_isspace c" using post by simp
  then have 2: "dropWhile py_isspace (rev post @ rev t) = rev t"
    using t by (cases t rule: rev_cases) (simp_all add: dropWhile_append)
  show ?thesis by (simp add: py_strip_def 1 2)
qed

section \<open>The loop\<close>

lemma globals_emit: "globals (emit e s) = globals s"
  by (simp add: emit_def)

lemma main_loop_None_exit:
  "main_loop run lines s = (None, s') \<Longrightarrow>
   \<exists>l\<in>set lines. py_lower (py_strip l) \<in> set [''exit'', ''quit'']"
proof (induction lines arbitrary: s)
  case Nil
  then show ?case by simp
next
  case (Cons line rest)
  show ?case
  proof (cases "py_lower (py_strip line) \<in> set [''exit'', ''quit'']")
    case True
    then show ?thesis by (meson list.set_intros(1))
  next
    case False
    then have "\<exists>s1. main_loop run rest s1 = (None, s')"
      using Cons.prems
      by (auto simp: Let_def split: if_splits prod.splits option.splits)
    then obtain s1 where "main_loop run rest s1 = (None, s')" ..
    from Cons.IH [OF this] show ?thesis by (meson list.set_intros(2))
  qed
qed

lemma run_query_globals:
  assumes "\<forall>a i s. globals (snd (run a i s)) = globals s"
  shows "globals (snd (run_query run q s)) = globals s"
proof -
  let ?s1 = "emit (Called (name (triage_agent (globals s))) q) (emit (TraceOpen ''Guardrail Execution'') s)"
  obtain r s2 where r: "run (triage_agent (globals s)) q ?s1 = (r, s2)"
    by (cases "run (triage_agent (globals s)) q ?s1")
  have "globals s2 = globals ?s1"
    using assms r by (metis snd_conv)
  then have g: "globals s2 = globals s" by (simp add: globals_emit)
  show ?thesis
    using r g
    by (auto simp: run_query_def call_def Let_def globals_emit split: sum.splits exn.splits)
qed

lemma main_loop_globals:
  assumes "\<forall>a i s. globals (snd (run a i s)) = globals s"
  shows "globals (snd (main_loop run lines s)) = globals s"
proof (induction lines arbitrary: s)
  case Nil
  show ?case by (simp add: globals_emit)
next
  case (Cons line rest)
  let ?s1 = "emit (Prompt ''Your Question: '') s"
  have q: "globals (snd (run_query run (py_strip line) ?s1)) = globals s"
    using run_query_globals [OF assms, of "py_strip line" ?s1] by (simp add: globals_emit)
  show ?case
  proof (cases "run_query run (py_strip line) ?s1")
    case (Pair r s2)
    with q have "globals s2 = globals s" by simp
    then show ?thesis
      using Pair Cons.IH [of s2] Cons.IH [of ?s1]
      by (cases r) (simp_all add: Let_def globals_emit)
  qed
qed

lemma run_query_raised:
  assumes "run_query run q s = (Some e, s')"
  shows "\<exists>a s0 s1. run a q s0 = (Inl e, s1)"
  using assms
  by (auto simp: run_query_def call_def Let_def split: prod.splits sum.splits exn.splits)

lemma main_loop_raised:
  "main_loop run lines s = (Some e, s') \<Longrightarrow>
   e = EOFError \<or> (\<exists>a q s0 s1. run a q s0 = (Inl e, s1))"
proof (induction lines arbitrary: s)
  case Nil
  then show ?case by simp
next
  case (Cons line rest)
  let ?s1 = "emit (Prompt ''Your Question: '') s"
  show ?case
  proof (cases "run_query run (py_strip line) ?s1")
    case (Pair r s2)
    show ?thesis
    proof (cases r)
      case None
      with Pair Cons.prems have "main_loop run rest s2 = (Some e, s') \<or> main_loop run rest ?s1 = (Some e, s')"
        by (auto simp: Let_def split: if_splits)
      then show ?thesis using Cons.IH by blast
    next
      case (Some x)
      with Pair Cons.prems have "x = e \<or> main_loop run rest ?s1 = (Some e, s')"
        by (auto simp: Let_def split: if_splits)
      then show ?thesis
        using Cons.IH run_query_raised Pair Some by blast
    qed
  qed
qed

section \<open>The rendered context\<close>

lemma sublist_skip: "sublist x y \<Longrightarrow> sublist x (a @ y)"
  by (metis sublist_append_leftI sublist_order.order_trans)

lemma sublist_keep: "sublist x y \<Longrightarrow> sublist x (y @ b)"
  by (metis sublist_append_rightI sublist_order.order_trans)

lemma render_context_fields:
  "sublist (account_number b) (render_context b s l)"
  "sublist (customer_name b) (render_context b s l)"
  "sublist (str_float (account_balance b)) (render_context b s l)"
  "sublist (account_type b) (render_context b s l)"
  "sublist (student_id s) (render_context b s l)"
  "sublist (student_name s) (render_context b s l)"
  "sublist (str_int (current_semester s)) (render_context b s l)"
  "sublist (str_int (total_courses s)) (render_context b s l)"
  "sublist (book_id l) (render_context b s l)"
  "sublist (book_title l) (render_context b s l)"
  "sublist (author_name l) (render_context b s l)"
  "sublist (str_bool (is_available l)) (render_context b s l)"
  unfolding render_context_def
  by (rule sublist_append_rightI | rule sublist_skip)+

lemma context_in_instructions:
  "sublist ctx (medicine_instructions ctx)" "sublist ctx (triage_instructions ctx)"
  unfolding medicine_instructions_def triage_instructions_def
  by (rule sublist_append_rightI | rule sublist_skip)+

lemma loaded_context_text:
  "local_context_text (build_globals k) =
     ''\<newline>Bank Account:\<newline>  Account Number: ACC-789456\<newline>  Customer Name: Fatima Khan'' @
     ''\<newline>  Account Balance: 75500.5\<newline>  Account Type: savings\<newline>'' @
     ''\<newline>Student Profile:\<newline>  ID: STU-456\<newline>  Name: Hassan Ahmed\<newline>  Semester: 4'' @
     ''\<newline>  Total Courses: 5\<newline>\<newline>Library Book:\<newline>  ID: BOOK-123'' @
     ''\<newline>  Title: Python Programming\<newline>  Author: John Smith\<newline>  Available: True\<newline>''"
  by (simp add: build_globals_records render_context_def str_int_def str_bool_def)

section \<open>The gate\<close>

lemma gate_step:
  assumes "globals s = build_globals k"
  shows "medicine_guardrail (run_classifier mc) q s =
    (case classifier_call mc guardrail_instructions q (world s) of
       (Inl err, w') \<Rightarrow>
         (Inl (ExternalError err),
          s\<lparr>world := w',
            events := events s @ [Called ''Guardrail Agent'' q, Invoked ''Guardrail Agent'' q]\<rparr>)
     | (Inr out, w') \<Rightarrow>
         (Inr (guardrail_output out),
          s\<lparr>world := w',
            events := events s @ [Called ''Guardrail Agent'' q, Invoked ''Guardrail Agent'' q]\<rparr>))"
  using assms
  by (simp add: medicine_guardrail_def call_def run_classifier_def invoke_def emit_def
      build_globals_agents Let_def split: prod.splits sum.splits)

section \<open>Normalisation of the classifier's output\<close>

text \<open>
  C2, as stated, fails: the mapping \<open>{"isMedicineQuery": "false"}\<close> carries a field of
  the wrong type, the specification's normalisation gives \<open>false\<close> for it, and
  \<open>bool("false")\<close> is \<open>True\<close>, so the code's \<open>is_medicine\<close> is \<open>True\<close>.
\<close>

theorem wrong_type_field_passes:
  "is_medicine_of (Raw (PyDict [(''isMedicineQuery'', PyStr ''false'')])) \<and>
   \<not> spec_isRelevant (Raw (PyDict [(''isMedicineQuery'', PyStr ''false'')]))"
  by (simp add: dict_get_def)

text \<open>
  C2, amended: a structured output gives its \<open>isMedicineQuery\<close> field; a mapping gives
  \<open>false\<close> when the field is absent and otherwise the Python truth value of the field,
  whatever its type; every output of another shape (\<open>None\<close>, a boolean, a number, a
  text, a list) gives \<open>false\<close>.
\<close>

theorem normalization_by_truth_value:
  "is_medicine_of (Structured m) = isMedicineQuery m \<and>
   (map_of d ''isMedicineQuery'' = None \<longrightarrow> \<not> is_medicine_of (Raw (PyDict d))) \<and>
   (map_of d ''isMedicineQuery'' = Some v \<longrightarrow> is_medicine_of (Raw (PyDict d)) = py_bool v) \<and>
   \<not> is_medicine_of (Raw PyNone) \<and>
   \<not> is_medicine_of (Raw (PyBool b)) \<and>
   \<not> is_medicine_of (Raw (PyInt n)) \<and>
   \<not> is_medicine_of (Raw (PyStr t)) \<and>
   \<not> is_medicine_of (Raw (PyList xs)) \<and>
   \<not> is_medicine_of (Raw (PyFlt f))"
  by (simp add: dict_get_def)

theorem normalization_by_truth_value_witness:
  "is_medicine_of (Structured \<lparr>response = ''ok'', isMedicineQuery = True\<rparr>) \<and>
   map_of [(''response'', PyStr ''hi'')] ''isMedicineQuery'' = None \<and>
   \<not> is_medicine_of (Raw (PyDict [(''response'', PyStr ''hi'')])) \<and>
   map_of [(''isMedicineQuery'', PyInt 0)] ''isMedicineQuery'' = Some (PyInt 0) \<and>
   \<not> is_medicine_of (Raw (PyDict [(''isMedicineQuery'', PyInt 0)])) \<and>
   \<not> is_medicine_of (Raw (PyStr ''yes''))"
  using normalization_by_truth_value
          [of "\<lparr>response = ''ok'', isMedicineQuery = True\<rparr>"
              "[(''response'', PyStr ''hi'')]" "PyInt 0" True 1 "''yes''" "[]"
              "PyFloat ''1.5''"]
        normalization_by_truth_value
          [of "\<lparr>response = ''ok'', isMedicineQuery = True\<rparr>"
              "[(''isMedicineQuery'', PyInt 0)]" "PyInt 0" True 1 "''yes''" "[]"
              "PyFloat ''1.5''"]
  by simp

section \<open>The guardrail's verdict\<close>

text \<open>
  C5, as stated, fails: the classifier output \<open>{"isMedicineQuery": 1}\<close> is malformed
  (no message, a number where the boolean belongs), and the verdict
  \<open>medicine_guardrail\<close> returns for it has the tripwire unset, that is, \<open>allowed\<close> is
  true.
\<close>

theorem malformed_verdict_allowed:
  "\<not> well_formed (Raw (PyDict [(''isMedicineQuery'', PyInt 1)])) \<and>
   medicine_guardrail (\<lambda>a i s. (Inr (Raw (PyDict [(''isMedicineQuery'', PyInt 1)])), s))
       ''any pills for a cold?'' \<lparr>globals = build_globals ''sk-1'', world = (),
         events =
           []\<rparr>
     = (Inr \<lparr>output_info = Raw (PyDict [(''isMedicineQuery'', PyInt 1)]),
             tripwire_triggered = False\<rparr>,
        \<lparr>globals = build_globals ''sk-1'', world = (),
          events = [Called ''Guardrail Agent'' ''any pills for a cold?'']\<rparr>)"
  by (simp add: medicine_guardrail_def call_def emit_def guardrail_output_def dict_get_def
      build_globals_agents)

text \<open>
  C5, amended: in every verdict \<open>medicine_guardrail\<close> returns, \<open>output_info\<close> is the
  classifier's output; \<open>allowed\<close> equals the classifier's \<open>isRelevant\<close> whenever that
  output is well-formed; \<open>allowed\<close> is false when the output is a mapping without the
  field, and when it is neither the structured type nor a mapping; for a mapping that
  has the field, \<open>allowed\<close> is the Python truth value of the field, whatever its type.
\<close>

theorem verdict_follows_truth_value:
  assumes "medicine_guardrail run input s = (Inr verdict, s')"
  shows "call run (guardrail_agent (globals s)) input s = (Inr (output_info verdict), s') \<and>
    (well_formed (output_info verdict) \<longrightarrow>
       allowed verdict = spec_isRelevant (output_info verdict)) \<and>
    (\<forall>d. output_info verdict = Raw (PyDict d) \<and> map_of d ''isMedicineQuery'' = None \<longrightarrow>
       \<not> allowed verdict) \<and>
    (\<forall>d v. output_info verdict = Raw (PyDict d) \<and> map_of d ''isMedicineQuery'' = Some v \<longrightarrow>
       allowed verdict = py_bool v) \<and>
    ((\<forall>m. output_info verdict \<noteq> Structured m) \<and> (\<forall>d. output_info verdict \<noteq> Raw (PyDict d)) \<longrightarrow>
       \<not> allowed verdict)"
proof -
  obtain out where r: "call run (guardrail_agent (globals s)) input s = (Inr out, s')"
    and v: "verdict = guardrail_output out"
    using assms by (auto simp: medicine_guardrail_def split: prod.splits sum.splits)
  have o: "output_info verdict = out" and a: "allowed verdict = is_medicine_of out"
    using v by (simp_all add: guardrail_output_def allowed_def)
  have wf: "well_formed out \<Longrightarrow> is_medicine_of out = spec_isRelevant out"
    by (induction out rule: is_medicine_of.induct)
       (auto simp: dict_get_def split: option.splits pyval.splits)
  have other: "(\<forall>m. out \<noteq> Structured m) \<Longrightarrow> (\<forall>d. out \<noteq> Raw (PyDict d)) \<Longrightarrow> \<not> is_medicine_of out"
    by (induction out rule: is_medicine_of.induct) auto
  show ?thesis
    using r wf other by (auto simp: o a dict_get_def)
qed

theorem verdict_follows_truth_value_witness:
  "medicine_guardrail
       (\<lambda>a i s. (Inr (Structured \<lparr>response = ''medical'', isMedicineQuery = True\<rparr>), s))
       ''what causes a fever?'' \<lparr>globals = build_globals ''sk-1'', world = (),
         events =
           []\<rparr>
     = (Inr \<lparr>output_info = Structured \<lparr>response = ''medical'', isMedicineQuery = True\<rparr>,
             tripwire_triggered = False\<rparr>,
        \<lparr>globals = build_globals ''sk-1'', world = (),
          events = [Called ''Guardrail Agent'' ''what causes a fever?'']\<rparr>) \<and>
   well_formed (Structured \<lparr>response = ''medical'', isMedicineQuery = True\<rparr>) \<and>
   allowed \<lparr>output_info = Structured \<lparr>response = ''medical'', isMedicineQuery = True\<rparr>,
            tripwire_triggered = False\<rparr>"
proof -
  have run: "medicine_guardrail
       (\<lambda>a i s. (Inr (Structured \<lparr>response = ''medical'', isMedicineQuery = True\<rparr>), s))
       ''what causes a fever?'' \<lparr>globals = build_globals ''sk-1'', world = (),
         events =
           []\<rparr>
     = (Inr \<lparr>output_info = Structured \<lparr>response = ''medical'', isMedicineQuery = True\<rparr>,
             tripwire_triggered = False\<rparr>,
        \<lparr>globals = build_globals ''sk-1'', world = (),
          events = [Called ''Guardrail Agent'' ''what causes a fever?'']\<rparr>)"
    by (simp add: medicine_guardrail_def call_def emit_def guardrail_output_def
        build_globals_agents)
  from verdict_follows_truth_value [OF run] show ?thesis
    using run by simp
qed

section \<open>Failures of the model capability\<close>

text \<open>
  C1, as stated, fails: with a \<open>Runner.run\<close> that raises a transport error, the first
  query ends the process with that error. Nothing is printed for the query, no error
  notice either, and the second line is never asked for.
\<close>

theorem failed_invocation_stops_process:
  "program (\<lambda>a i s. (Inl (ExternalError ''timeout''), s)) (Some ''sk-1'')
     [''what is aspirin?'', ''what is ibuprofen?''] ()
   = (Some (ExternalError ''timeout''),
      [Print ''Medicine Query Bot (Guardrails + Local Context Enabled)'',
       Print ''Type 'exit' to quit.\<newline>'',
       Prompt ''Your Question: '',
       TraceOpen ''Guardrail Execution'',
       Called ''Triage Agent'' ''what is aspirin?'',
       TraceClose])"
  by (simp add: program_def load_module_def main_def Let_def py_strip_def py_isspace_def
      py_lower_def py_lower_char_def upper_chars_def lower_chars_def run_query_def call_def
      emit_def build_globals_agents)

text \<open>
  C1, amended: for every line that is forwarded as a query and whose \<open>Runner.run\<close>
  raises an error other than the guardrail's tripwire, \<open>run_query\<close> prints nothing
  after the call and lets the error escape, closing the trace scope; the interactive
  loop does not catch it and ends with that error, whatever lines would follow.
\<close>

theorem failure_escapes_loop:
  assumes "py_lower (py_strip line) \<notin> set [''exit'', ''quit'']"
    and "py_strip line \<noteq> []"
    and "call run (triage_agent (globals s)) (py_strip line)
           (emit (TraceOpen ''Guardrail Execution'') (emit (Prompt ''Your Question: '') s))
         = (Inl e, s')"
    and "e \<noteq> InputGuardrailTripwireTriggered"
  shows "run_query run (py_strip line) (emit (Prompt ''Your Question: '') s)
           = (Some e, emit TraceClose s') \<and>
         main_loop run (line # rest) s = (Some e, emit TraceClose s')"
proof -
  have rq: "run_query run (py_strip line) (emit (Prompt ''Your Question: '') s)
           = (Some e, emit TraceClose s')"
    using assms(3,4) by (cases e) (simp_all add: run_query_def Let_def globals_emit)
  show ?thesis
    using assms(1,2) rq by (simp add: Let_def)
qed

theorem failure_escapes_loop_witness:
  "py_lower (py_strip ''what is aspirin?'') \<notin> set [''exit'', ''quit''] \<and>
   py_strip ''what is aspirin?'' \<noteq> [] \<and>
   main_loop (\<lambda>a i s. (Inl (ExternalError ''timeout''), s)) [''what is aspirin?'', ''exit'']
       \<lparr>globals = build_globals ''sk-1'', world = (), events = []\<rparr>
     = (Some (ExternalError ''timeout''),
        \<lparr>globals = build_globals ''sk-1'', world = (),
          events =
            [Prompt ''Your Question: '',
             TraceOpen ''Guardrail Execution'',
             Called ''Triage Agent'' ''what is aspirin?'',
             TraceClose]\<rparr>)"
proof -
  have st: "py_strip ''what is aspirin?'' = ''what is aspirin?''"
    by (simp add: py_strip_def py_isspace_def)
  have a1: "py_lower (py_strip ''what is aspirin?'') \<notin> set [''exit'', ''quit'']"
    by (simp add: st py_lower_def)
  have a2: "py_strip ''what is aspirin?'' \<noteq> []"
    by (simp add: st)
  have a3: "call (\<lambda>a i s. (Inl (ExternalError ''timeout''), s))
         (triage_agent (globals \<lparr>globals = build_globals ''sk-1'', world = (), events = []\<rparr>))
         (py_strip ''what is aspirin?'')
         (emit (TraceOpen ''Guardrail Execution'') (emit (Prompt ''Your Question: '')
            \<lparr>globals = build_globals ''sk-1'', world = (), events = []\<rparr>))
       = (Inl (ExternalError ''timeout''),
          \<lparr>globals = build_globals ''sk-1'', world = (),
            events =
              [Prompt ''Your Question: '',
               TraceOpen ''Guardrail Execution'',
               Called ''Triage Agent'' ''what is aspirin?'']\<rparr>)"
    by (simp add: st call_def emit_def build_globals_agents)
  have a4: "ExternalError ''timeout'' \<noteq> InputGuardrailTripwireTriggered"
    by simp
  from failure_escapes_loop [OF a1 a2 a3 a4, of "[''exit'']"] show ?thesis
    using a1 a2 by (simp add: emit_def)
qed

section \<open>The interactive loop\<close>

text \<open>
  C6, as stated, fails: the line \<open>" Exit"\<close> is not the token \<open>exit\<close> or \<open>quit\<close> in any
  letter case, and the loop ends on it; and the line \<open>"is it flu?"\<close> is no such token
  either, and the loop ends on it when \<open>Runner.run\<close> raises.
\<close>

theorem padded_token_ends_loop:
  "\<not> in_any_case ''exit'' '' Exit'' \<and> \<not> in_any_case ''quit'' '' Exit'' \<and>
   main_loop (\<lambda>a i s. (Inr ''rest and fluids'', s)) ['' Exit'', ''what is aspirin?'']
       \<lparr>globals = build_globals ''sk-1'', world = (), events = []\<rparr>
     = (None, \<lparr>globals = build_globals ''sk-1'', world = (), events = [Prompt ''Your Question: '', Print ''Goodbye!'']\<rparr>) \<and>
   \<not> in_any_case ''exit'' ''is it flu?'' \<and> \<not> in_any_case ''quit'' ''is it flu?'' \<and>
   main_loop (\<lambda>a i s. (Inl (ExternalError ''timeout''), s)) [''is it flu?'', ''what is aspirin?'']
       \<lparr>globals = build_globals ''sk-1'', world = (), events = []\<rparr>
     = (Some (ExternalError ''timeout''),
        \<lparr>globals = build_globals ''sk-1'', world = (),
          events =
            [Prompt ''Your Question: '',
             TraceOpen ''Guardrail Execution'',
             Called ''Triage Agent'' ''is it flu?'',
             TraceClose]\<rparr>)"
proof -
  have 1: "py_strip '' Exit'' = ''Exit''" "py_strip ''is it flu?'' = ''is it flu?''"
    by (simp_all add: py_strip_def py_isspace_def)
  have 2: "py_lower ''Exit'' = ''exit''" "py_lower ''is it flu?'' = ''is it flu?''"
    by (simp_all add: py_lower_def py_lower_char_def upper_chars_def lower_chars_def)
  show ?thesis
    by (simp add: 1 2 in_any_case_def run_query_def call_def emit_def build_globals_agents Let_def)
qed

text \<open>
  C6, amended: the loop says goodbye and ends at a line exactly when the line, with the
  whitespace at its two ends removed, is \<open>exit\<close> or \<open>quit\<close> in any letter case; a line
  of whitespace only, or an empty one, is skipped with no call of \<open>run_query\<close>; every
  other line is forwarded to \<open>run_query\<close>, stripped, after which the loop goes on with
  the next line, unless an exception escaped \<open>run_query\<close>, which ends the loop. The
  loop ends without an exception only if some line was such a token.
\<close>

theorem loop_step_by_line:
  "((in_any_case ''exit'' (py_strip line) \<or> in_any_case ''quit'' (py_strip line)) \<longrightarrow>
      main_loop run (line # rest) s =
        (None, emit (Print ''Goodbye!'') (emit (Prompt ''Your Question: '') s))) \<and>
   ((\<forall>c\<in>set line. py_isspace c) \<longrightarrow>
      main_loop run (line # rest) s = main_loop run rest (emit (Prompt ''Your Question: '') s)) \<and>
   (\<not> in_any_case ''exit'' (py_strip line) \<and> \<not> in_any_case ''quit'' (py_strip line) \<and>
    (\<exists>c\<in>set line. \<not> py_isspace c) \<longrightarrow>
      main_loop run (line # rest) s =
        (case run_query run (py_strip line) (emit (Prompt ''Your Question: '') s) of
           (Some e, s2) \<Rightarrow> (Some e, s2)
         | (None, s2) \<Rightarrow> main_loop run rest s2)) \<and>
   (main_loop run lines s = (None, s') \<longrightarrow>
      (\<exists>l\<in>set lines. in_any_case ''exit'' (py_strip l) \<or> in_any_case ''quit'' (py_strip l)))"
proof -
  have blank: "(\<forall>c\<in>set line. py_isspace c) \<longleftrightarrow> py_strip line = []"
    by (simp add: py_strip_blank)
  have nb: "py_strip line = [] \<Longrightarrow> py_lower (py_strip line) \<notin> set [''exit'', ''quit'']"
    by (simp add: py_lower_def)
  have a: "(in_any_case ''exit'' (py_strip line) \<or> in_any_case ''quit'' (py_strip line)) \<longrightarrow>
      main_loop run (line # rest) s =
        (None, emit (Print ''Goodbye!'') (emit (Prompt ''Your Question: '') s))"
    using exit_test [of "py_strip line"] by (simp add: Let_def)
  have b: "(\<forall>c\<in>set line. py_isspace c) \<longrightarrow>
      main_loop run (line # rest) s = main_loop run rest (emit (Prompt ''Your Question: '') s)"
    using nb by (simp add: blank Let_def)
  have c: "\<not> in_any_case ''exit'' (py_strip line) \<and> \<not> in_any_case ''quit'' (py_strip line) \<and>
    (\<exists>c\<in>set line. \<not> py_isspace c) \<longrightarrow>
      main_loop run (line # rest) s =
        (case run_query run (py_strip line) (emit (Prompt ''Your Question: '') s) of
           (Some e, s2) \<Rightarrow> (Some e, s2)
         | (None, s2) \<Rightarrow> main_loop run rest s2)"
    using exit_test [of "py_strip line"] blank by (auto simp: Let_def)
  have d: "main_loop run lines s = (None, s') \<longrightarrow>
      (\<exists>l\<in>set lines. in_any_case ''exit'' (py_strip l) \<or> in_any_case ''quit'' (py_strip l))"
    using main_loop_None_exit [of run lines s s'] exit_test by blast
  from a b c d show ?thesis by blast
qed

theorem loop_step_by_line_witness:
  "in_any_case ''quit'' (py_strip ''QUIT'') \<and>
   main_loop (\<lambda>a i s. (Inr ''rest and fluids'', s)) [''QUIT'', ''is it flu?'']
       \<lparr>globals = build_globals ''sk-1'', world = (), events = []\<rparr>
     = (None, \<lparr>globals = build_globals ''sk-1'', world = (), events = [Prompt ''Your Question: '', Print ''Goodbye!'']\<rparr>) \<and>
   list_all py_isspace ''   '' \<and>
   main_loop (\<lambda>a i s. (Inr ''rest and fluids'', s)) [''   '', ''quit'']
       \<lparr>globals = build_globals ''sk-1'', world = (), events = []\<rparr>
     = (None, \<lparr>globals = build_globals ''sk-1'', world = (), events = [Prompt ''Your Question: '', Prompt ''Your Question: '', Print ''Goodbye!'']\<rparr>) \<and>
   \<not> in_any_case ''exit'' (py_strip ''is it flu?'') \<and>
   \<not> in_any_case ''quit'' (py_strip ''is it flu?'') \<and>
   main_loop (\<lambda>a i s. (Inr ''rest and fluids'', s)) [''is it flu?'', ''exit'']
       \<lparr>globals = build_globals ''sk-1'', world = (), events = []\<rparr>
     = (None, \<lparr>globals = build_globals ''sk-1'', world = (),
       events =
         [Prompt ''Your Question: '',
          TraceOpen ''Guardrail Execution'',
          Called ''Triage Agent'' ''is it flu?'',
          Print ''\<newline>--- Agent Answer ---'',
          Print ''rest and fluids'',
          Print ''--------------------\<newline>'',
          TraceClose,
          Prompt ''Your Question: '',
          Print ''Goodbye!'']\<rparr>)"
proof -
  have 1: "py_strip ''QUIT'' = ''QUIT''" "py_strip ''is it flu?'' = ''is it flu?''"
    "py_strip ''   '' = []" "py_strip ''quit'' = ''quit''" "py_strip ''exit'' = ''exit''"
    by (simp_all add: py_strip_def py_isspace_def)
  have 2: "py_lower ''QUIT'' = ''quit''" "py_lower ''is it flu?'' = ''is it flu?''"
    "py_lower ''quit'' = ''quit''" "py_lower ''exit'' = ''exit''" "py_lower [] = []"
    by (simp_all add: py_lower_def py_lower_char_def upper_chars_def lower_chars_def)
  have 3: "in_any_case ''quit'' ''QUIT''" "\<not> in_any_case ''exit'' ''is it flu?''"
    "\<not> in_any_case ''quit'' ''is it flu?''" "list_all py_isspace ''   ''"
    by (simp_all add: in_any_case_def upper_chars_def lower_chars_def py_isspace_def)
  have 4: "py_isspace CHR '' ''" "\<not> py_isspace CHR ''i''"
    by (simp_all add: py_isspace_def)
  note a = loop_step_by_line [of "''QUIT''" "(\<lambda>a i s. (Inr ''rest and fluids'', s))" "[''is it flu?'']"
      "\<lparr>globals = build_globals ''sk-1'', world = (), events = []\<rparr>" "[]"
      "\<lparr>globals = build_globals ''sk-1'', world = (), events = []\<rparr>"]
  note b = loop_step_by_line [of "''   ''" "(\<lambda>a i s. (Inr ''rest and fluids'', s))" "[''quit'']"
      "\<lparr>globals = build_globals ''sk-1'', world = (), events = []\<rparr>" "[]"
      "\<lparr>globals = build_globals ''sk-1'', world = (), events = []\<rparr>"]
  note c = loop_step_by_line [of "''is it flu?''" "(\<lambda>a i s. (Inr ''rest and fluids'', s))" "[''exit'']"
      "\<lparr>globals = build_globals ''sk-1'', world = (), events = []\<rparr>" "[]"
      "\<lparr>globals = build_globals ''sk-1'', world = (), events = []\<rparr>"]
  have ra: "main_loop (\<lambda>a i s. (Inr ''rest and fluids'', s)) [''QUIT'', ''is it flu?'']
       \<lparr>globals = build_globals ''sk-1'', world = (), events = []\<rparr>
     = (None, emit (Print ''Goodbye!'') (emit (Prompt ''Your Question: '')
          \<lparr>globals = build_globals ''sk-1'', world = (), events = []\<rparr>))"
    using a 1 3 by (simp del: main_loop.simps)
  have rb: "main_loop (\<lambda>a i s. (Inr ''rest and fluids'', s)) [''   '', ''quit'']
       \<lparr>globals = build_globals ''sk-1'', world = (), events = []\<rparr>
     = main_loop (\<lambda>a i s. (Inr ''rest and fluids'', s)) [''quit''] (emit (Prompt ''Your Question: '')
          \<lparr>globals = build_globals ''sk-1'', world = (), events = []\<rparr>)"
    using b 4 by (simp del: main_loop.simps)
  have rc: "main_loop (\<lambda>a i s. (Inr ''rest and fluids'', s)) [''is it flu?'', ''exit'']
       \<lparr>globals = build_globals ''sk-1'', world = (), events = []\<rparr>
     = (case run_query (\<lambda>a i s. (Inr ''rest and fluids'', s)) (py_strip ''is it flu?'')
              (emit (Prompt ''Your Question: '')
                 \<lparr>globals = build_globals ''sk-1'', world = (), events = []\<rparr>) of
          (Some e, s2) \<Rightarrow> (Some e, s2)
        | (None, s2) \<Rightarrow> main_loop (\<lambda>a i s. (Inr ''rest and fluids'', s)) [''exit''] s2)"
    using c 1 3 4 by (simp del: main_loop.simps)
  show ?thesis
    unfolding ra rb rc by (simp add: 1 2 3 4 run_query_def call_def emit_def build_globals_agents Let_def)
qed

text \<open>
  C10: the loop treats a line as it treats the stripped line; the stripped line is the
  line without a run of whitespace at each end, and has no whitespace at its ends; the
  text \<open>run_query\<close> receives for a forwarded line is the stripped line; and a token
  \<open>exit\<close> or \<open>quit\<close> in any letter case, with whitespace around it, ends the loop.
\<close>

theorem query_is_stripped_line:
  "main_loop run (line # rest) s = main_loop run (py_strip line # rest) s \<and>
   (\<exists>pre post. line = pre @ py_strip line @ post \<and>
      (\<forall>c\<in>set pre. py_isspace c) \<and> (\<forall>c\<in>set post. py_isspace c)) \<and>
   (py_strip line \<noteq> [] \<longrightarrow>
      \<not> py_isspace (hd (py_strip line)) \<and> \<not> py_isspace (last (py_strip line))) \<and>
   (py_lower (py_strip line) \<notin> set [''exit'', ''quit''] \<and> py_strip line \<noteq> [] \<longrightarrow>
      main_loop run (line # rest) s =
        (case run_query run (py_strip line) (emit (Prompt ''Your Question: '') s) of
           (Some e, s2) \<Rightarrow> (Some e, s2)
         | (None, s2) \<Rightarrow> main_loop run rest s2)) \<and>
   ((\<forall>c\<in>set pad1. py_isspace c) \<and> (\<forall>c\<in>set pad2. py_isspace c) \<and>
    (in_any_case ''exit'' token \<or> in_any_case ''quit'' token) \<longrightarrow>
      main_loop run ((pad1 @ token @ pad2) # rest) s =
        (None, emit (Print ''Goodbye!'') (emit (Prompt ''Your Question: '') s)))"
proof -
  have 1: "main_loop run (line # rest) s = main_loop run (py_strip line # rest) s"
    by (simp add: py_strip_idem)
  have 5: "(\<forall>c\<in>set pad1. py_isspace c) \<and> (\<forall>c\<in>set pad2. py_isspace c) \<and>
    (in_any_case ''exit'' token \<or> in_any_case ''quit'' token) \<longrightarrow>
      main_loop run ((pad1 @ token @ pad2) # rest) s =
        (None, emit (Print ''Goodbye!'') (emit (Prompt ''Your Question: '') s))"
  proof
    assume h: "(\<forall>c\<in>set pad1. py_isspace c) \<and> (\<forall>c\<in>set pad2. py_isspace c) \<and>
      (in_any_case ''exit'' token \<or> in_any_case ''quit'' token)"
    then have "py_strip (pad1 @ token @ pad2) = token"
      using in_any_case_ends [of token] py_strip_pad [of pad1 pad2 token] by blast
    moreover have "py_lower token \<in> set [''exit'', ''quit'']"
      using h exit_test [of token] by blast
    ultimately show "main_loop run ((pad1 @ token @ pad2) # rest) s =
        (None, emit (Print ''Goodbye!'') (emit (Prompt ''Your Question: '') s))"
      by (simp add: Let_def)
  qed
  have 4: "py_lower (py_strip line) \<notin> set [''exit'', ''quit''] \<and> py_strip line \<noteq> [] \<longrightarrow>
      main_loop run (line # rest) s =
        (case run_query run (py_strip line) (emit (Prompt ''Your Question: '') s) of
           (Some e, s2) \<Rightarrow> (Some e, s2)
         | (None, s2) \<Rightarrow> main_loop run rest s2)"
    by (simp add: Let_def)
  from 1 py_strip_decomp [of line] py_strip_ends [of line] 4 5 show ?thesis by blast
qed

theorem query_is_stripped_line_witness:
  "list_all py_isspace ''  '' \<and> in_any_case ''exit'' ''EXIT'' \<and>
   main_loop (\<lambda>a i s. (Inr ''rest and fluids'', s)) [''  EXIT  '', ''is it flu?'']
       \<lparr>globals = build_globals ''sk-1'', world = (), events = []\<rparr>
     = (None, \<lparr>globals = build_globals ''sk-1'', world = (), events = [Prompt ''Your Question: '', Print ''Goodbye!'']\<rparr>) \<and>
   py_strip ''  is it flu? '' = ''is it flu?'' \<and>
   py_lower ''is it flu?'' \<notin> set [''exit'', ''quit''] \<and>
   main_loop (\<lambda>a i s. (Inr ''rest and fluids'', s)) [''  is it flu? '', ''exit'']
       \<lparr>globals = build_globals ''sk-1'', world = (), events = []\<rparr>
     = (None, \<lparr>globals = build_globals ''sk-1'', world = (),
       events =
         [Prompt ''Your Question: '',
          TraceOpen ''Guardrail Execution'',
          Called ''Triage Agent'' ''is it flu?'',
          Print ''\<newline>--- Agent Answer ---'',
          Print ''rest and fluids'',
          Print ''--------------------\<newline>'',
          TraceClose,
          Prompt ''Your Question: '',
          Print ''Goodbye!'']\<rparr>)"
proof -
  have 1: "py_strip ''  is it flu? '' = ''is it flu?''" "py_strip ''exit'' = ''exit''"
    by (simp_all add: py_strip_def py_isspace_def)
  have 2: "py_lower ''is it flu?'' = ''is it flu?''" "py_lower ''exit'' = ''exit''"
    by (simp_all add: py_lower_def py_lower_char_def upper_chars_def lower_chars_def)
  have 3: "in_any_case ''exit'' ''EXIT''" "list_all py_isspace ''  ''"
    by (simp_all add: in_any_case_def upper_chars_def lower_chars_def py_isspace_def)
  have 4: "py_isspace CHR '' ''"
    by (simp add: py_isspace_def)
  note a = query_is_stripped_line [of "(\<lambda>a i s. (Inr ''rest and fluids'', s))" "''  is it flu? ''" "[''exit'']"
      "\<lparr>globals = build_globals ''sk-1'', world = (), events = []\<rparr>" "''  ''" "''  ''" "''EXIT''"]
  note b = query_is_stripped_line [of "(\<lambda>a i s. (Inr ''rest and fluids'', s))" "''  EXIT  ''" "[''is it flu?'']"
      "\<lparr>globals = build_globals ''sk-1'', world = (), events = []\<rparr>" "''  ''" "''  ''" "''EXIT''"]
  have h: "py_lower (py_strip ''  is it flu? '') \<notin> set [''exit'', ''quit''] \<and>
    py_strip ''  is it flu? '' \<noteq> []"
    by (simp add: 1 2)
  have ra: "main_loop (\<lambda>a i s. (Inr ''rest and fluids'', s)) [''  is it flu? '', ''exit'']
       \<lparr>globals = build_globals ''sk-1'', world = (), events = []\<rparr>
     = (case run_query (\<lambda>a i s. (Inr ''rest and fluids'', s)) (py_strip ''  is it flu? '')
              (emit (Prompt ''Your Question: '')
                 \<lparr>globals = build_globals ''sk-1'', world = (), events = []\<rparr>) of
          (Some e, s2) \<Rightarrow> (Some e, s2)
        | (None, s2) \<Rightarrow> main_loop (\<lambda>a i s. (Inr ''rest and fluids'', s)) [''exit''] s2)"
    using a h by blast
  have h2: "(\<forall>c\<in>set ''  ''. py_isspace c) \<and> (\<forall>c\<in>set ''  ''. py_isspace c) \<and>
    (in_any_case ''exit'' ''EXIT'' \<or> in_any_case ''quit'' ''EXIT'')"
    by (simp add: 3 4)
  have rb: "main_loop (\<lambda>a i s. (Inr ''rest and fluids'', s)) ((''  '' @ ''EXIT'' @ ''  '') # [''is it flu?''])
       \<lparr>globals = build_globals ''sk-1'', world = (), events = []\<rparr>
     = (None, emit (Print ''Goodbye!'') (emit (Prompt ''Your Question: '')
          \<lparr>globals = build_globals ''sk-1'', world = (), events = []\<rparr>))"
    using b h2 by blast
  show ?thesis
    using ra rb by (simp add: 1 2 3 4 run_query_def call_def emit_def build_globals_agents Let_def)
qed

section \<open>Startup\<close>

text \<open>
  C7: when the key is missing (not set, or set to the empty text) the process ends with
  the configuration error before it has done anything: nothing is printed, no line is
  read, no query is run. When the key is there the module loads and \<open>main\<close> runs; and
  an exception that ends \<open>main\<close> is \<open>EOFError\<close> or one that \<open>Runner.run\<close> raised, so the
  configuration error is never raised while queries are processed.
\<close>

theorem missing_key_is_fatal:
  "((getenv = None \<or> getenv = Some []) \<longrightarrow>
      program run getenv lines w =
        (Some (ValueError ''OPENAI_API_KEY not set in .env file.''), [])) \<and>
   (getenv = Some key \<and> key \<noteq> [] \<longrightarrow>
      program run getenv lines w =
        (case main run lines \<lparr>globals = build_globals key, world = w, events = []\<rparr> of
           (r, s') \<Rightarrow> (r, events s'))) \<and>
   (main run lines s = (Some e, s1) \<longrightarrow>
      e = EOFError \<or> (\<exists>a q s2 s3. run a q s2 = (Inl e, s3)))"
proof -
  have "main run lines s = (Some e, s1) \<longrightarrow>
      e = EOFError \<or> (\<exists>a q s2 s3. run a q s2 = (Inl e, s3))"
    unfolding main_def using main_loop_raised by blast
  then show ?thesis
    by (auto simp: program_def load_module_def)
qed

theorem missing_key_is_fatal_witness:
  "program (\<lambda>a i s. (Inr ''rest and fluids'', s)) None [''is it flu?'', ''exit''] ()
     = (Some (ValueError ''OPENAI_API_KEY not set in .env file.''), []) \<and>
   program (\<lambda>a i s. (Inr ''rest and fluids'', s)) (Some []) [''is it flu?'', ''exit''] ()
     = (Some (ValueError ''OPENAI_API_KEY not set in .env file.''), []) \<and>
   program (\<lambda>a i s. (Inr ''rest and fluids'', s)) (Some ''sk-1'') [''exit''] ()
     = (None, [Print ''Medicine Query Bot (Guardrails + Local Context Enabled)'',
               Print ''Type 'exit' to quit.\<newline>'', Prompt ''Your Question: '',
               Print ''Goodbye!'']) \<and>
   main (\<lambda>a i s. (Inr ''rest and fluids'', s)) []
       \<lparr>globals = build_globals ''sk-1'', world = (), events = []\<rparr>
     = (Some EOFError,
        \<lparr>globals = build_globals ''sk-1'', world = (),
          events = [Print ''Medicine Query Bot (Guardrails + Local Context Enabled)'',
                    Print ''Type 'exit' to quit.\<newline>'', Prompt ''Your Question: '']\<rparr>)"
proof -
  note a = missing_key_is_fatal [of None "(\<lambda>a i s. (Inr ''rest and fluids'', s))" "[''is it flu?'', ''exit'']" "()"
      "''sk-1''" "\<lparr>globals = build_globals ''sk-1'', world = (), events = []\<rparr>" EOFError
      "\<lparr>globals = build_globals ''sk-1'', world = (), events = []\<rparr>"]
  note b = missing_key_is_fatal [of "Some []" "(\<lambda>a i s. (Inr ''rest and fluids'', s))" "[''is it flu?'', ''exit'']" "()"
      "''sk-1''" "\<lparr>globals = build_globals ''sk-1'', world = (), events = []\<rparr>" EOFError
      "\<lparr>globals = build_globals ''sk-1'', world = (), events = []\<rparr>"]
  have ra: "program (\<lambda>a i s. (Inr ''rest and fluids'', s)) None [''is it flu?'', ''exit''] ()
     = (Some (ValueError ''OPENAI_API_KEY not set in .env file.''), [])"
    using a by blast
  have rb: "program (\<lambda>a i s. (Inr ''rest and fluids'', s)) (Some []) [''is it flu?'', ''exit''] ()
     = (Some (ValueError ''OPENAI_API_KEY not set in .env file.''), [])"
    using b by blast
  have 1: "py_strip ''exit'' = ''exit''"
    by (simp add: py_strip_def py_isspace_def)
  have 2: "py_lower ''exit'' = ''exit''"
    by (simp add: py_lower_def py_lower_char_def upper_chars_def lower_chars_def)
  show ?thesis
    unfolding ra rb
    by (simp add: program_def load_module_def main_def emit_def 1 2)
qed

section \<open>The context records\<close>

text \<open>
  C8: whatever the three records hold, the text of each of their twelve fields (as
  \<open>str\<close> gives it for the balance, the two counts and the availability flag) is a
  contiguous part of the specialist's instructions built from their rendering. In the
  loaded module the specialist's instructions are built from the rendering of the
  module's records, that rendering is the same text at every load, spelled out below,
  and the router's instructions hold the same text.
\<close>

theorem context_fields_in_specialist_prompt:
  "sublist (account_number b) (medicine_instructions (render_context b s l)) \<and>
   sublist (customer_name b) (medicine_instructions (render_context b s l)) \<and>
   sublist (str_float (account_balance b)) (medicine_instructions (render_context b s l)) \<and>
   sublist (account_type b) (medicine_instructions (render_context b s l)) \<and>
   sublist (student_id s) (medicine_instructions (render_context b s l)) \<and>
   sublist (student_name s) (medicine_instructions (render_context b s l)) \<and>
   sublist (str_int (current_semester s)) (medicine_instructions (render_context b s l)) \<and>
   sublist (str_int (total_courses s)) (medicine_instructions (render_context b s l)) \<and>
   sublist (book_id l) (medicine_instructions (render_context b s l)) \<and>
   sublist (book_title l) (medicine_instructions (render_context b s l)) \<and>
   sublist (author_name l) (medicine_instructions (render_context b s l)) \<and>
   sublist (str_bool (is_available l)) (medicine_instructions (render_context b s l)) \<and>
   instructions (medicine_agent (build_globals k)) =
     medicine_instructions (render_context (bank_account (build_globals k))
       (student (build_globals k)) (library_book (build_globals k))) \<and>
   local_context_text (build_globals k) =
     render_context (bank_account (build_globals k)) (student (build_globals k))
       (library_book (build_globals k)) \<and>
   local_context_text (build_globals k) = local_context_text (build_globals k') \<and>
   local_context_text (build_globals k) =
     ''\<newline>Bank Account:\<newline>  Account Number: ACC-789456\<newline>  Customer Name: Fatima Khan'' @
     ''\<newline>  Account Balance: 75500.5\<newline>  Account Type: savings\<newline>'' @
     ''\<newline>Student Profile:\<newline>  ID: STU-456\<newline>  Name: Hassan Ahmed\<newline>  Semester: 4'' @
     ''\<newline>  Total Courses: 5\<newline>\<newline>Library Book:\<newline>  ID: BOOK-123'' @
     ''\<newline>  Title: Python Programming\<newline>  Author: John Smith\<newline>  Available: True\<newline>'' \<and>
   sublist (local_context_text (build_globals k)) (instructions (triage_agent (build_globals k)))"
proof -
  have into: "\<And>x. sublist x (render_context b s l) \<Longrightarrow>
      sublist x (medicine_instructions (render_context b s l))"
    using context_in_instructions(1) sublist_order.order_trans by blast
  have same: "local_context_text (build_globals k) = local_context_text (build_globals k')"
    by (simp only: loaded_context_text)
  have rendered: "local_context_text (build_globals k) =
     render_context (bank_account (build_globals k)) (student (build_globals k))
       (library_book (build_globals k))"
    by (rule build_globals_records(4))
  have agents: "instructions (medicine_agent (build_globals k)) =
       medicine_instructions (local_context_text (build_globals k))"
    "instructions (triage_agent (build_globals k)) =
       triage_instructions (local_context_text (build_globals k))"
    by (simp_all add: build_globals_agents)
  have tri: "sublist (local_context_text (build_globals k))
      (instructions (triage_agent (build_globals k)))"
    by (simp only: agents context_in_instructions)
  have med: "instructions (medicine_agent (build_globals k)) =
     medicine_instructions (render_context (bank_account (build_globals k))
       (student (build_globals k)) (library_book (build_globals k)))"
    using agents(1) rendered by simp
  from render_context_fields [THEN into] med rendered same
    loaded_context_text [of k] tri
  show ?thesis by blast
qed

text \<open>
  C9: provided \<open>Runner.run\<close> hands the module's globals back as it found them, the
  globals after one query, after any run of the loop and after \<open>main\<close> are the globals
  built at load time, records and rendered text included; the state that goes from one
  query to the next is these globals, the outside world and the record of events, and
  nothing else.
\<close>

theorem context_never_mutated:
  assumes "\<forall>a i s. globals (snd (run a i s)) = globals s"
  shows "globals (snd (run_query run q s)) = globals s \<and>
         globals (snd (main_loop run lines s)) = globals s \<and>
         globals (snd (main run lines \<lparr>globals = build_globals key, world = w, events = []\<rparr>))
           = build_globals key \<and>
         local_context_text
             (globals (snd (main run lines \<lparr>globals = build_globals key, world = w, events = []\<rparr>)))
           = render_context (bank_account (build_globals key)) (student (build_globals key))
               (library_book (build_globals key))"
proof -
  have m: "globals (snd (main run lines \<lparr>globals = build_globals key, world = w, events = []\<rparr>))
           = build_globals key"
    unfolding main_def using main_loop_globals [OF assms] by (simp add: globals_emit)
  show ?thesis
    using run_query_globals [OF assms] main_loop_globals [OF assms]
    by (simp add: m build_globals_records(4))
qed

theorem context_never_mutated_witness:
  "(\<forall>a i s. globals (snd ((\<lambda>a i s. (Inr ''rest and fluids'', s)) a i (s :: unit state))) = globals s) \<and>
   globals (snd (main (\<lambda>a i s. (Inr ''rest and fluids'', s)) [''is it flu?'', ''exit'']
       \<lparr>globals = build_globals ''sk-1'', world = (), events = []\<rparr>))
     = build_globals ''sk-1'' \<and>
   main (\<lambda>a i s. (Inr ''rest and fluids'', s)) [''is it flu?'', ''exit'']
       \<lparr>globals = build_globals ''sk-1'', world = (), events = []\<rparr>
     = (None, \<lparr>globals = build_globals ''sk-1'', world = (),
          events = [Print ''Medicine Query Bot (Guardrails + Local Context Enabled)'',
                    Print ''Type 'exit' to quit.\<newline>'', Prompt ''Your Question: '', TraceOpen ''Guardrail Execution'', Called ''Triage Agent'' ''is it flu?'', Print ''\<newline>--- Agent Answer ---'', Print ''rest and fluids'', Print ''--------------------\<newline>'', TraceClose, Prompt ''Your Question: '', Print ''Goodbye!'']\<rparr>)"
proof -
  have h: "\<forall>a i s. globals (snd ((\<lambda>a i s. (Inr ''rest and fluids'', s)) a i (s :: unit state))) = globals s"
    by simp
  have 1: "py_strip ''exit'' = ''exit''" "py_strip ''is it flu?'' = ''is it flu?''"
    by (simp_all add: py_strip_def py_isspace_def)
  have 2: "py_lower ''exit'' = ''exit''" "py_lower ''is it flu?'' = ''is it flu?''"
    by (simp_all add: py_lower_def py_lower_char_def upper_chars_def lower_chars_def)
  have r: "main (\<lambda>a i s. (Inr ''rest and fluids'', s)) [''is it flu?'', ''exit'']
       \<lparr>globals = build_globals ''sk-1'', world = (), events = []\<rparr>
     = (None, \<lparr>globals = build_globals ''sk-1'', world = (),
          events = [Print ''Medicine Query Bot (Guardrails + Local Context Enabled)'',
                    Print ''Type 'exit' to quit.\<newline>'', Prompt ''Your Question: '', TraceOpen ''Guardrail Execution'', Called ''Triage Agent'' ''is it flu?'', Print ''\<newline>--- Agent Answer ---'', Print ''rest and fluids'', Print ''--------------------\<newline>'', TraceClose, Prompt ''Your Question: '', Print ''Goodbye!'']\<rparr>)"
    by (simp add: main_def 1 2 run_query_def call_def emit_def build_globals_agents Let_def)
  from context_never_mutated [OF h, of "''is it flu?''"
      "\<lparr>globals = build_globals ''sk-1'', world = (), events = []\<rparr>"
      "[''is it flu?'', ''exit'']" "''sk-1''" "()"]
  have "globals (snd (main (\<lambda>a i s. (Inr ''rest and fluids'', s)) [''is it flu?'', ''exit'']
       \<lparr>globals = build_globals ''sk-1'', world = (), events = []\<rparr>))
     = build_globals ''sk-1''"
    by blast
  with h r show ?thesis by blast
qed

section \<open>The gated pipeline\<close>

text \<open>
  C3: in the loaded module, for every query on which the classifier answers and the
  guardrail finds it not about medicine, the pipeline invokes the model capability for
  the classifier only, neither for the router nor for the specialist, prints the block
  notice and nothing else, and returns without an exception.
\<close>

theorem blocked_query_short_circuits:
  assumes "globals s = build_globals k"
    and "classifier_call mc guardrail_instructions q (world s) = (Inr out, w')"
    and "\<not> is_medicine_of out"
  shows "run_query (Runner_run mc) q s =
    (None,
     s\<lparr>world := w',
       events := events s @
         [TraceOpen ''Guardrail Execution'', Called ''Triage Agent'' q, Called ''Guardrail Agent'' q, Invoked ''Guardrail Agent'' q,
          Print blocked_notice, TraceClose]\<rparr>)"
proof -
  let ?s1 = "emit (Called ''Triage Agent'' q) (emit (TraceOpen ''Guardrail Execution'') s)"
  have g: "globals ?s1 = build_globals k" "world ?s1 = world s"
    using assms(1) by (simp_all add: emit_def)
  have gate: "medicine_guardrail (run_classifier mc) q ?s1 =
      (Inr (guardrail_output out),
       ?s1\<lparr>world := w',
         events := events ?s1 @ [Called ''Guardrail Agent'' q, Invoked ''Guardrail Agent'' q]\<rparr>)"
    using gate_step [OF g(1), of mc q] assms(2) by (simp add: g(2))
  have trip: "tripwire_triggered (guardrail_output out)"
    using assms(3) by (simp add: guardrail_output_def)
  have run: "Runner_run mc (triage_agent (globals s)) q ?s1 =
      (Inl InputGuardrailTripwireTriggered,
       ?s1\<lparr>world := w',
         events := events ?s1 @ [Called ''Guardrail Agent'' q, Invoked ''Guardrail Agent'' q]\<rparr>)"
    by (simp add: Runner_run_def assms(1) build_globals_agents gate trip)
  show ?thesis
    using run
    by (simp add: run_query_def call_def Let_def assms(1) build_globals_agents globals_emit)
       (simp add: emit_def)
qed

theorem blocked_query_short_circuits_witness:
  "\<not> is_medicine_of (Structured \<lparr>response = ''checked'', isMedicineQuery = False\<rparr>) \<and>
   run_query
     (Runner_run
       \<lparr>classifier_call =
           (\<lambda>ins inp w.
             (Inr (Structured \<lparr>response = ''checked'', isMedicineQuery = False\<rparr>), Suc w)),
       router_call = (\<lambda>ins inp w. (Inr (Delegate ''Medicine Agent''), Suc w)),
       specialist_call = (\<lambda>ins inp w. (Inr ''An infection, most often.'', Suc w))\<rparr>)
     ''What's my account balance?''
     \<lparr>globals = build_globals ''sk-1'', world = 0, events = []\<rparr>
   = (None,
      \<lparr>globals = build_globals ''sk-1'', world = Suc 0,
        events =
          [TraceOpen ''Guardrail Execution'',
           Called ''Triage Agent'' ''What's my account balance?'',
           Called ''Guardrail Agent'' ''What's my account balance?'',
           Invoked ''Guardrail Agent'' ''What's my account balance?'',
           Print blocked_notice,
           TraceClose]\<rparr>)"
proof -
  have h1: "globals (\<lparr>globals = build_globals ''sk-1'', world = 0, events = []\<rparr> :: nat state) = build_globals ''sk-1''"
    by simp
  have h2: "classifier_call
       \<lparr>classifier_call =
           (\<lambda>ins inp w.
             (Inr (Structured \<lparr>response = ''checked'', isMedicineQuery = False\<rparr>), Suc w)),
       router_call = (\<lambda>ins inp w. (Inr (Delegate ''Medicine Agent''), Suc w)),
       specialist_call = (\<lambda>ins inp w. (Inr ''An infection, most often.'', Suc w))\<rparr>
       guardrail_instructions ''What's my account balance?''
       (world (\<lparr>globals = build_globals ''sk-1'', world = 0, events = []\<rparr> :: nat state))
     = (Inr (Structured \<lparr>response = ''checked'', isMedicineQuery = False\<rparr>), Suc 0)"
    by simp
  have h3: "\<not> is_medicine_of (Structured \<lparr>response = ''checked'', isMedicineQuery = False\<rparr>)"
    by simp
  from blocked_query_short_circuits [OF h1 h2 h3] show ?thesis
    using h3 by simp
qed

text \<open>
  C4, as stated, fails: the classifier reports the query \<open>"What causes a fever?"\<close> as
  relevant, the gate lets it pass and the router is invoked, but the router's
  invocation times out. The error escapes \<open>run_query\<close>: no answer is printed, so the
  responding phase is not reached, although no block notice is printed either.
\<close>

theorem relevant_query_router_failure:
  "is_medicine_of (Structured \<lparr>response = ''checked'', isMedicineQuery = True\<rparr>) \<and>
   run_query
     (Runner_run
       \<lparr>classifier_call =
           (\<lambda>ins inp w.
             (Inr (Structured \<lparr>response = ''checked'', isMedicineQuery = True\<rparr>), Suc w)),
        router_call = (\<lambda>ins inp w. (Inl ''timeout'', Suc w)),
        specialist_call = (\<lambda>ins inp w. (Inr ''An infection, most often.'', Suc w))\<rparr>)
     ''What causes a fever?''
     \<lparr>globals = build_globals ''sk-1'', world = 0, events = []\<rparr>
   = (Some (ExternalError ''timeout''),
      \<lparr>globals = build_globals ''sk-1'', world = Suc (Suc 0),
        events =
          [TraceOpen ''Guardrail Execution'',
           Called ''Triage Agent'' ''What causes a fever?'',
           Called ''Guardrail Agent'' ''What causes a fever?'',
           Invoked ''Guardrail Agent'' ''What causes a fever?'',
           Invoked ''Triage Agent'' ''What causes a fever?'',
           TraceClose]\<rparr>)"
  by (simp add: run_query_def call_def Runner_run_def invoke_def emit_def Let_def
      build_globals_agents medicine_guardrail_def run_classifier_def guardrail_output_def)

text \<open>
  C4, amended: in the loaded module, for every query on which the classifier answers
  and the guardrail finds it about medicine, the router is invoked next and the block
  notice is never printed. The answer is printed, between the two answer marks, exactly
  when the router's invocation succeeds and, if the router delegates, the delegation
  names the specialist and the specialist's invocation succeeds; in every other case
  the error of the invocation escapes \<open>run_query\<close> with nothing printed.
\<close>

theorem relevant_query_reaches_router:
  assumes "globals s = build_globals k"
    and "classifier_call mc guardrail_instructions q (world s) = (Inr out, w1)"
    and "is_medicine_of out"
  shows "run_query (Runner_run mc) q s =
    (case router_call mc (triage_instructions (local_context_text (build_globals k))) q w1 of
       (Inl err, w2) \<Rightarrow>
         (Some (ExternalError err),
          s\<lparr>world := w2,
               events := events s @
                 [TraceOpen ''Guardrail Execution'', Called ''Triage Agent'' q, Called ''Guardrail Agent'' q, Invoked ''Guardrail Agent'' q,
                  Invoked ''Triage Agent'' q, TraceClose]\<rparr>)
     | (Inr (Direct answer), w2) \<Rightarrow>
         (None,
          s\<lparr>world := w2,
               events := events s @
                 [TraceOpen ''Guardrail Execution'', Called ''Triage Agent'' q, Called ''Guardrail Agent'' q, Invoked ''Guardrail Agent'' q,
                  Invoked ''Triage Agent'' q, Print ''\<newline>--- Agent Answer ---'', Print answer, Print ''--------------------\<newline>'', TraceClose]\<rparr>)
     | (Inr (Delegate target), w2) \<Rightarrow>
         if target = ''Medicine Agent''
         then (case specialist_call mc
                      (medicine_instructions (local_context_text (build_globals k))) q w2 of
                 (Inl err, w3) \<Rightarrow>
                   (Some (ExternalError err),
                    s\<lparr>world := w3,
               events := events s @
                 [TraceOpen ''Guardrail Execution'', Called ''Triage Agent'' q, Called ''Guardrail Agent'' q, Invoked ''Guardrail Agent'' q,
                  Invoked ''Triage Agent'' q, Invoked ''Medicine Agent'' q, TraceClose]\<rparr>)
               | (Inr answer, w3) \<Rightarrow>
                   (None,
                    s\<lparr>world := w3,
               events := events s @
                 [TraceOpen ''Guardrail Execution'', Called ''Triage Agent'' q, Called ''Guardrail Agent'' q, Invoked ''Guardrail Agent'' q,
                  Invoked ''Triage Agent'' q, Invoked ''Medicine Agent'' q, Print ''\<newline>--- Agent Answer ---'', Print answer, Print ''--------------------\<newline>'', TraceClose]\<rparr>))
         else (Some (ExternalError ''unknown handoff''),
               s\<lparr>world := w2,
               events := events s @
                 [TraceOpen ''Guardrail Execution'', Called ''Triage Agent'' q, Called ''Guardrail Agent'' q, Invoked ''Guardrail Agent'' q,
                  Invoked ''Triage Agent'' q, TraceClose]\<rparr>))"
proof -
  have pass: "\<not> tripwire_triggered (guardrail_output out)"
    using assms(3) by (simp add: guardrail_output_def)
  show ?thesis
    using pass
    by (auto simp: run_query_def call_def Runner_run_def invoke_def emit_def Let_def
        build_globals_agents assms(1,2) gate_step
        split: prod.splits sum.splits route.splits exn.splits)
qed

theorem relevant_query_reaches_router_witness:
  "is_medicine_of (Structured \<lparr>response = ''checked'', isMedicineQuery = True\<rparr>) \<and>
   run_query
     (Runner_run
       \<lparr>classifier_call =
           (\<lambda>ins inp w.
             (Inr (Structured \<lparr>response = ''checked'', isMedicineQuery = True\<rparr>), Suc w)),
       router_call = (\<lambda>ins inp w. (Inr (Delegate ''Medicine Agent''), Suc w)),
       specialist_call = (\<lambda>ins inp w. (Inr ''An infection, most often.'', Suc w))\<rparr>)
     ''What causes a fever?''
     \<lparr>globals = build_globals ''sk-1'', world = 0, events = []\<rparr>
   = (None,
      \<lparr>globals = build_globals ''sk-1'', world = Suc (Suc (Suc 0)),
        events =
          [TraceOpen ''Guardrail Execution'',
           Called ''Triage Agent'' ''What causes a fever?'',
           Called ''Guardrail Agent'' ''What causes a fever?'',
           Invoked ''Guardrail Agent'' ''What causes a fever?'',
           Invoked ''Triage Agent'' ''What causes a fever?'',
           Invoked ''Medicine Agent'' ''What causes a fever?'',
           Print ''\<newline>--- Agent Answer ---'',
           Print ''An infection, most often.'',
           Print ''--------------------\<newline>'',
           TraceClose]\<rparr>)"
proof -
  have h1: "globals (\<lparr>globals = build_globals ''sk-1'', world = 0, events = []\<rparr> :: nat state) = build_globals ''sk-1''"
    by simp
  have h2: "classifier_call
       \<lparr>classifier_call =
           (\<lambda>ins inp w.
             (Inr (Structured \<lparr>response = ''checked'', isMedicineQuery = True\<rparr>), Suc w)),
       router_call = (\<lambda>ins inp w. (Inr (Delegate ''Medicine Agent''), Suc w)),
       specialist_call = (\<lambda>ins inp w. (Inr ''An infection, most often.'', Suc w))\<rparr>
       guardrail_instructions ''What causes a fever?''
       (world (\<lparr>globals = build_globals ''sk-1'', world = 0, events = []\<rparr> :: nat state))
     = (Inr (Structured \<lparr>response = ''checked'', isMedicineQuery = True\<rparr>), Suc 0)"
    by simp
  have h3: "is_medicine_of (Structured \<lparr>response = ''checked'', isMedicineQuery = True\<rparr>)"
    by simp
  from relevant_query_reaches_router [OF h1 h2 h3] show ?thesis
    using h3 by simp
qed

end
